theory Spec2Isabelle
  imports Complex_Main
begin

section \<open>Python values\<close>

text \<open>
  A Python \<open>str\<close> is a sequence of Unicode code points: \<open>len\<close> counts code points and
  \<open>strip\<close> removes code points. A text is therefore a list of code points, and a literal
  of the program is written \<open>str ''...''\<close>.
\<close>

type_synonym pystr = "nat list"

definition str :: "string \<Rightarrow> pystr" where
  "str s = map of_char s"

text \<open>
  The exceptions of the program: the \<open>ValueError\<close> raised by the questionnaire scorer, the
  \<open>AttributeError\<close> of a method call on \<open>None\<close>, the \<open>KeyError\<close> of a missing dictionary
  key, and whatever a library call raises. Each carries the text that \<open>str(e)\<close> reads.
\<close>

datatype py_error =
  ValueError pystr | AttributeError pystr | KeyError pystr | LibraryError pystr

fun str_of_error :: "py_error \<Rightarrow> pystr" where
  "str_of_error (ValueError m) = m"
| "str_of_error (AttributeError m) = m"
| "str_of_error (KeyError m) = m"
| "str_of_error (LibraryError m) = m"

text \<open>
  The four sentiment scores, a dictionary with the fixed keys \<open>positive\<close>, \<open>negative\<close>,
  \<open>neutral\<close> and \<open>compound\<close>. The scores are floats; they are modelled as reals, which
  agrees with the code on every comparison with a decimal literal as long as no score is
  NaN.
\<close>

record vader_scores =
  positive :: real
  negative :: real
  neutral :: real
  compound :: real

text \<open>The result dictionaries of both analyses map a key to one of these values.\<close>

datatype pyvalue =
    PyInt int | PyFloat real | PyStr pystr
  | PyStrList "pystr list" | PyFloatList "real list" | PyScores vader_scores

type_synonym pydict = "pystr \<rightharpoonup> pyvalue"

section \<open>Questionnaire recommendations\<close>

text \<open>The advisory that \<open>_get_phq9_recommendations\<close> inserts at index 0: a warning sign
  (U+26A0, U+FE0F) followed by the text.\<close>

definition urgent_advisory :: pystr where
  "urgent_advisory = 0x26A0 # 0xFE0F # str '' Consider immediate professional support''"

definition get_phq9_recommendations :: "pystr \<Rightarrow> int \<Rightarrow> pystr list" where
  "get_phq9_recommendations severity score =
    (let recommendations =
       (if severity = str ''Minimal'' then
          [str ''Continue maintaining good mental health habits'',
           str ''Practice regular self-care activities'',
           str ''Stay connected with supportive people'',
           str ''Consider journaling to track your mood'']
        else if severity = str ''Mild'' then
          [str ''Consider talking to a counselor or therapist'',
           str ''Engage in regular physical activity'',
           str ''Practice stress management techniques'',
           str ''Maintain a regular sleep schedule'',
           str ''Connect with friends and family'']
        else if severity = str ''Moderate'' then
          [str ''Strongly consider professional counseling'',
           str ''Discuss your symptoms with a healthcare provider'',
           str ''Consider mindfulness or meditation practices'',
           str ''Maintain social connections'',
           str ''Avoid alcohol and substance use'']
        else
          [str ''Seek immediate professional help'',
           str ''Contact your healthcare provider'',
           str ''Consider medication evaluation'',
           str ''Inform trusted friends or family about your situation'',
           str ''Remove access to means of self-harm''])
     in if score \<ge> 15 then urgent_advisory # recommendations else recommendations)"

section \<open>Questionnaire scoring\<close>

definition analyze_phq9 :: "int list \<Rightarrow> py_error + pydict" where
  "analyze_phq9 responses =
    (if length responses \<noteq> 9 then Inl (ValueError (str ''PHQ-9 requires exactly 9 responses''))
     else
       let total_score = sum_list responses;
           (severity, description) =
             (if total_score \<le> 4 then (str ''Minimal'', str ''Minimal or no depression'')
              else if total_score \<le> 9 then (str ''Mild'', str ''Mild depression'')
              else if total_score \<le> 14 then (str ''Moderate'', str ''Moderate depression'')
              else if total_score \<le> 19 then
                (str ''Moderately Severe'', str ''Moderately severe depression'')
              else (str ''Severe'', str ''Severe depression''));
           recommendations = get_phq9_recommendations severity total_score
       in Inr [str ''total_score'' \<mapsto> PyInt total_score,
               str ''max_score'' \<mapsto> PyInt 27,
               str ''severity'' \<mapsto> PyStr severity,
               str ''description'' \<mapsto> PyStr description,
               str ''recommendations'' \<mapsto> PyStrList recommendations,
               str ''analysis_type'' \<mapsto> PyStr (str ''PHQ-9'')])"


section \<open>Text normalisation\<close>

text \<open>The code points that \<open>str.isspace\<close>, \<open>str.strip()\<close> and \<open>str.split()\<close> treat as
  whitespace.\<close>

definition py_isspace :: "nat \<Rightarrow> bool" where
  "py_isspace c \<longleftrightarrow>
     (0x09 \<le> c \<and> c \<le> 0x0D) \<or> (0x1C \<le> c \<and> c \<le> 0x20) \<or> c = 0x85 \<or> c = 0xA0 \<or>
     c = 0x1680 \<or> (0x2000 \<le> c \<and> c \<le> 0x200A) \<or> c = 0x2028 \<or> c = 0x2029 \<or>
     c = 0x202F \<or> c = 0x205F \<or> c = 0x3000"

definition strip :: "pystr \<Rightarrow> pystr" where
  "strip s = rev (dropWhile py_isspace (rev (dropWhile py_isspace s)))"

text \<open>\<open>s.split()\<close>: the maximal runs of non-whitespace, in order; \<open>cur\<close> is the run being
  read, reversed.\<close>

fun split_from :: "pystr \<Rightarrow> pystr \<Rightarrow> pystr list" where
  "split_from cur [] = (if cur = [] then [] else [rev cur])"
| "split_from cur (c # cs) =
     (if py_isspace c then (if cur = [] then split_from [] cs else rev cur # split_from [] cs)
      else split_from (c # cur) cs)"

definition split :: "pystr \<Rightarrow> pystr list" where
  "split s = split_from [] s"

fun join :: "pystr \<Rightarrow> pystr list \<Rightarrow> pystr" where
  "join sep [] = []"
| "join sep [w] = w"
| "join sep (w # ws) = w @ sep @ join sep ws"

text \<open>
  \<open>preprocess_text\<close>. Python's \<open>str.lower()\<close> follows the Unicode case mapping tables, which
  are not part of this repository: the function is the parameter \<open>lower\<close>.
\<close>

definition preprocess_text :: "(pystr \<Rightarrow> pystr) \<Rightarrow> pystr \<Rightarrow> pystr" where
  "preprocess_text lower text =
    (if text = [] then []
     else let text = strip (lower text);
              text = join (str '' '') (split text)
          in text)"

section \<open>The service and its artifacts\<close>

text \<open>
  The trained artifacts are opaque: each is the function that the code calls on it, and
  a call either raises or returns.
  \<^item> the tokenizer maps the processed text to token ids;
  \<^item> the encoder maps the token ids to the hidden state of the sequence start token in the
    last layer (\<open>outputs.hidden_states[-1][:, 0, :]\<close>, one row for the one text), a list
    with one component per hidden dimension;
  \<^item> the sentiment analyzer's \<open>polarity_scores\<close> returns a dictionary;
  \<^item> the scaler's \<open>transform\<close> maps the single feature row to the scaled row;
  \<^item> the classifier's \<open>predict(...)[0]\<close> is a class code and \<open>predict_proba(...)[0]\<close> the row
    of class probabilities.
  A field holding \<open>None\<close> is \<open>None\<close>, and the truth value that \<open>get_bert_embedding\<close> takes
  of the encoder and of the tokenizer is whether the field is set.
\<close>

record sk_classifier =
  predict :: "real list \<Rightarrow> py_error + int"
  predict_proba :: "real list \<Rightarrow> py_error + real list"

record MLService =
  bert_model :: "(nat list \<Rightarrow> py_error + real list) option"
  bert_tokenizer :: "(pystr \<Rightarrow> py_error + nat list) option"
  vader_analyzer :: "(pystr \<Rightarrow> py_error + (pystr \<rightharpoonup> real)) option"
  scaler :: "(real list \<Rightarrow> py_error + real list) option"
  classifier :: "sk_classifier option"
  model_loaded :: bool

text \<open>
  What a call does besides returning: the methods of the service it enters, the artifacts
  it invokes and the lines it logs, in order.
\<close>

datatype event =
    Call_get_vader_scores | Call_polarity_scores
  | Call_get_bert_embedding | Call_tokenizer | Call_bert_model
  | Call_concatenate | Call_scaler_transform | Call_predict | Call_predict_proba
  | Log_info pystr | Log_warning pystr | Log_error pystr

definition zero_scores :: vader_scores where
  "zero_scores = \<lparr>positive = 0.0, negative = 0.0, neutral = 0.0, compound = 0.0\<rparr>"

section \<open>Loading the artifacts\<close>

text \<open>
  What \<open>_load_models\<close> finds at start-up: whether the import of the ML libraries succeeded
  (when it failed, every imported name is \<open>None\<close>), which paths exist, and what each load
  returns or raises.
\<close>

record artifact_store =
  ml_imports_ok :: bool
  bert_dir_exists :: bool
  tokenizer_from_pretrained :: "py_error + (pystr \<Rightarrow> py_error + nat list)"
  model_from_pretrained :: "py_error + (nat list \<Rightarrow> py_error + real list)"
  model_eval :: "py_error + unit"
  new_sentiment_analyzer :: "py_error + (pystr \<Rightarrow> py_error + (pystr \<rightharpoonup> real))"
  scaler_file_exists :: bool
  load_scaler :: "py_error + (real list \<Rightarrow> py_error + real list)"
  classifier_file_exists :: bool
  load_classifier :: "py_error + sk_classifier"

text \<open>
  The three parts of the \<open>try\<close> block of \<open>_load_models\<close>. Each returns the exception that
  left it, if any, the service as assigned so far and the lines logged.
\<close>

definition load_models_bert ::
  "artifact_store \<Rightarrow> MLService \<Rightarrow> py_error option \<times> MLService \<times> event list" where
  "load_models_bert store self =
    (if ml_imports_ok store then
       (if bert_dir_exists store then
          (case tokenizer_from_pretrained store of
             Inl e \<Rightarrow> (Some e, self, [])
           | Inr tokenizer \<Rightarrow>
              (let self = self\<lparr>bert_tokenizer := Some tokenizer\<rparr>
               in case model_from_pretrained store of
                    Inl e \<Rightarrow> (Some e, self, [])
                  | Inr model \<Rightarrow>
                     (let self = self\<lparr>bert_model := Some model\<rparr>
                      in case model_eval store of
                           Inl e \<Rightarrow> (Some e, self, [])
                         | Inr _ \<Rightarrow>
                            (None, self, [Log_info (str ''BERT model loaded successfully'')]))))
        else (None, self, [Log_warning (str
          ''BERT model directory not found. Create 'models/fine_tuned_bert' and upload model files.'')]))
     else (None, self, []))"

definition load_models_vader ::
  "artifact_store \<Rightarrow> MLService \<Rightarrow> py_error option \<times> MLService \<times> event list" where
  "load_models_vader store self =
    (if ml_imports_ok store then
       (case new_sentiment_analyzer store of
          Inl e \<Rightarrow> (Some e, self, [])
        | Inr analyzer \<Rightarrow>
           (None, self\<lparr>vader_analyzer := Some analyzer\<rparr>,
            [Log_info (str ''VADER analyzer initialized'')]))
     else (None, self, []))"

definition load_models_scaler ::
  "artifact_store \<Rightarrow> MLService \<Rightarrow> py_error option \<times> MLService \<times> event list" where
  "load_models_scaler store self =
    (if scaler_file_exists store then
       (case load_scaler store of
          Inl e \<Rightarrow> (Some e, self, [])
        | Inr s \<Rightarrow> (None, self\<lparr>scaler := Some s\<rparr>,
                    [Log_info (str ''Scaler loaded successfully'')]))
     else (None, self, [Log_warning (str
       ''Scaler file not found. Upload scaler.joblib to models/ directory.'')]))"

definition load_models_classifier ::
  "artifact_store \<Rightarrow> MLService \<Rightarrow> py_error option \<times> MLService \<times> event list" where
  "load_models_classifier store self =
    (if classifier_file_exists store then
       (case load_classifier store of
          Inl e \<Rightarrow> (Some e, self, [])
        | Inr c \<Rightarrow> (None, self\<lparr>classifier := Some c\<rparr>,
                    [Log_info (str ''Classifier loaded successfully'')]))
     else (None, self, [Log_warning (str
       ''Classifier file not found. Upload logistic_classifier.joblib to models/ directory.'')]))"

text \<open>The \<open>except\<close> branch of \<open>_load_models\<close>.\<close>

definition load_models_failed ::
  "py_error \<Rightarrow> MLService \<Rightarrow> event list \<Rightarrow> MLService \<times> event list" where
  "load_models_failed e self logged =
    (self\<lparr>model_loaded := False\<rparr>,
     logged @ [Log_error (str ''Error loading models: '' @ str_of_error e)])"

definition load_models :: "artifact_store \<Rightarrow> MLService \<Rightarrow> MLService \<times> event list" where
  "load_models store self =
    (case load_models_bert store self of
       (Some e, self, t1) \<Rightarrow> load_models_failed e self t1
     | (None, self, t1) \<Rightarrow>
    (case load_models_vader store self of
       (Some e, self, t2) \<Rightarrow> load_models_failed e self (t1 @ t2)
     | (None, self, t2) \<Rightarrow>
    (case (if ml_imports_ok store then load_models_scaler store self else (None, self, [])) of
       (Some e, self, t3) \<Rightarrow> load_models_failed e self (t1 @ t2 @ t3)
     | (None, self, t3) \<Rightarrow>
    (case (if ml_imports_ok store then load_models_classifier store self else (None, self, [])) of
       (Some e, self, t4) \<Rightarrow> load_models_failed e self (t1 @ t2 @ t3 @ t4)
     | (None, self, t4) \<Rightarrow>
        (let loaded = (bert_model self \<noteq> None \<and> vader_analyzer self \<noteq> None \<and>
                       scaler self \<noteq> None \<and> classifier self \<noteq> None)
         in (self\<lparr>model_loaded := loaded\<rparr>,
             t1 @ t2 @ t3 @ t4 @
             [if loaded then Log_info (str ''All ML models loaded successfully'')
              else Log_warning (str
                ''Some ML models are missing. Using fallback analysis.'')]))))))"

text \<open>\<open>MLService.__init__\<close>: every artifact \<open>None\<close>, then \<open>_load_models\<close>.\<close>

definition MLService_init :: "artifact_store \<Rightarrow> MLService \<times> event list" where
  "MLService_init store =
     load_models store
       \<lparr>bert_model = None, bert_tokenizer = None, vader_analyzer = None, scaler = None,
        classifier = None, model_loaded = False\<rparr>"

section \<open>Sentiment scores and embeddings\<close>

text \<open>\<open>d[k]\<close> on a dictionary: a missing key raises \<open>KeyError\<close>, whose text is the quoted key.\<close>

definition getitem :: "(pystr \<rightharpoonup> 'v) \<Rightarrow> pystr \<Rightarrow> py_error + 'v" where
  "getitem d k =
    (case d k of None \<Rightarrow> Inl (KeyError (str [CHR 0x27] @ k @ str [CHR 0x27])) | Some v \<Rightarrow> Inr v)"

definition get_vader_scores ::
  "(pystr \<Rightarrow> pystr) \<Rightarrow> MLService \<Rightarrow> pystr \<Rightarrow> vader_scores \<times> event list" where
  "get_vader_scores lower self text =
    (case vader_analyzer self of
       None \<Rightarrow> (zero_scores, [Call_get_vader_scores])
     | Some polarity_scores \<Rightarrow>
        (let processed_text = preprocess_text lower text;
             calls = [Call_get_vader_scores, Call_polarity_scores];
             failed = (\<lambda>e. (zero_scores,
                        calls @ [Log_error (str ''Error getting VADER scores: '' @ str_of_error e)]))
         in case polarity_scores processed_text of
              Inl e \<Rightarrow> failed e
            | Inr scores \<Rightarrow>
               (case getitem scores (str ''pos'') of Inl e \<Rightarrow> failed e | Inr pos \<Rightarrow>
               (case getitem scores (str ''neg'') of Inl e \<Rightarrow> failed e | Inr neg \<Rightarrow>
               (case getitem scores (str ''neu'') of Inl e \<Rightarrow> failed e | Inr neu \<Rightarrow>
               (case getitem scores (str ''compound'') of Inl e \<Rightarrow> failed e | Inr cpd \<Rightarrow>
                  (\<lparr>positive = pos, negative = neg, neutral = neu, compound = cpd\<rparr>,
                   calls)))))))"

text \<open>
  The embedding is an array. \<open>.squeeze()\<close> removes every axis of length one from the row
  of the hidden state: a row of one component becomes an array without axes (a scalar),
  any other row a vector.
\<close>

datatype ndarray = Array0 real | Array1 "real list"

definition squeeze :: "real list \<Rightarrow> ndarray" where
  "squeeze row = (case row of [x] \<Rightarrow> Array0 x | _ \<Rightarrow> Array1 row)"

definition get_bert_embedding ::
  "(pystr \<Rightarrow> pystr) \<Rightarrow> MLService \<Rightarrow> pystr \<Rightarrow> ndarray option \<times> event list" where
  "get_bert_embedding lower self text =
    (case (bert_model self, bert_tokenizer self) of
       (Some model, Some tokenizer) \<Rightarrow>
        (let processed_text = preprocess_text lower text;
             failed = (\<lambda>e. Log_error (str ''Error getting BERT embedding: '' @ str_of_error e))
         in case tokenizer processed_text of
              Inl e \<Rightarrow> (None, [Call_get_bert_embedding, Call_tokenizer, failed e])
            | Inr inputs \<Rightarrow>
               (case model inputs of
                  Inl e \<Rightarrow>
                   (None, [Call_get_bert_embedding, Call_tokenizer, Call_bert_model, failed e])
                | Inr hidden_state \<Rightarrow>
                   (let cls_embedding = squeeze hidden_state
                    in (Some cls_embedding,
                        [Call_get_bert_embedding, Call_tokenizer, Call_bert_model]))))
     | _ \<Rightarrow> (None, [Call_get_bert_embedding]))"

section \<open>Journal recommendations and the rule-based estimator\<close>

definition challenge_advisory :: pystr where
  "challenge_advisory = str ''Consider challenging negative thought patterns''"

definition pleasant_advisory :: pystr where
  "pleasant_advisory = str ''Try to identify and engage in pleasant activities''"

definition get_journal_recommendations :: "pystr \<Rightarrow> vader_scores \<Rightarrow> pystr list" where
  "get_journal_recommendations severity vader_scores =
    (let recommendations =
       (if severity = str ''Minimal'' then
          [str ''Continue expressing your thoughts through writing'',
           str ''Practice gratitude journaling'',
           str ''Celebrate small victories'',
           str ''Maintain healthy routines'']
        else if severity = str ''Mild'' then
          [str ''Continue regular journaling'',
           str ''Focus on positive coping strategies'',
           str ''Consider talking to someone you trust'',
           str ''Practice self-compassion'']
        else if severity = str ''Moderate'' then
          [str ''Consider professional support'',
           str ''Use journaling to identify patterns'',
           str ''Practice mindfulness techniques'',
           str ''Maintain social connections'']
        else
          [str ''Seek professional help immediately'',
           str ''Share your concerns with trusted people'',
           str ''Use journaling as a tool with professional guidance'',
           str ''Focus on safety and self-care'']);
       recommendations =
         (if negative vader_scores > 0.3 then recommendations @ [challenge_advisory]
          else recommendations);
       recommendations =
         (if positive vader_scores < 0.1 then recommendations @ [pleasant_advisory]
          else recommendations)
     in recommendations)"

definition fallback_analysis :: "vader_scores \<Rightarrow> pydict" where
  "fallback_analysis vader_scores =
    (let compound = compound vader_scores;
         negative = negative vader_scores;
         severity =
           (if compound \<le> - 0.5 \<or> negative \<ge> 0.4 then str ''Moderate''
            else if compound \<le> - 0.2 \<or> negative \<ge> 0.2 then str ''Mild''
            else str ''Minimal'')
     in [str ''predicted_severity'' \<mapsto> PyStr severity,
         str ''confidence'' \<mapsto> PyFloat 0.7,
         str ''method'' \<mapsto> PyStr (str ''rule_based''),
         str ''recommendations'' \<mapsto>
           PyStrList (get_journal_recommendations severity vader_scores)])"

section \<open>Journal analysis\<close>

definition severity_map :: "int \<rightharpoonup> pystr" where
  "severity_map =
     [0 \<mapsto> str ''Minimal'', 1 \<mapsto> str ''Mild'', 2 \<mapsto> str ''Moderate'', 3 \<mapsto> str ''Severe'']"

text \<open>\<open>None.transform\<close> and \<open>None.predict\<close>: an attribute read on \<open>None\<close> raises.\<close>

definition none_has_no :: "string \<Rightarrow> py_error" where
  "none_has_no attr =
     AttributeError (str ([CHR 0x27] @ ''NoneType'' @ [CHR 0x27] @
       '' object has no attribute '' @ [CHR 0x27] @ attr @ [CHR 0x27]))"

text \<open>
  The statements of the \<open>try\<close> block of \<open>analyze_journal_text\<close> that scale the fused
  features and classify them: \<open>self.scaler.transform\<close>, \<open>self.classifier.predict\<close>,
  \<open>self.classifier.predict_proba\<close> and the maximum of the probabilities (which raises on an
  empty row). The result is the exception that leaves the block, or the class code and the
  confidence.
\<close>

definition scale_and_classify ::
  "MLService \<Rightarrow> real list \<Rightarrow> (py_error + int \<times> real) \<times> event list" where
  "scale_and_classify self combined_features =
    (case scaler self of
       None \<Rightarrow> (Inl (none_has_no ''transform''), [])
     | Some transform \<Rightarrow>
        (case transform combined_features of
           Inl e \<Rightarrow> (Inl e, [Call_scaler_transform])
         | Inr scaled_features \<Rightarrow>
            (case classifier self of
               None \<Rightarrow> (Inl (none_has_no ''predict''), [Call_scaler_transform])
             | Some clf \<Rightarrow>
                (case predict clf scaled_features of
                   Inl e \<Rightarrow> (Inl e, [Call_scaler_transform, Call_predict])
                 | Inr prediction \<Rightarrow>
                    (case predict_proba clf scaled_features of
                       Inl e \<Rightarrow>
                        (Inl e, [Call_scaler_transform, Call_predict, Call_predict_proba])
                     | Inr [] \<Rightarrow>
                        (Inl (ValueError (str
                           ''zero-size array to reduction operation maximum which has no identity'')),
                         [Call_scaler_transform, Call_predict, Call_predict_proba])
                     | Inr (p # ps) \<Rightarrow>
                        (Inr (prediction, fold max ps p),
                         [Call_scaler_transform, Call_predict, Call_predict_proba]))))))"

text \<open>\<open>vader_features\<close>, the array of the four scores in the order of the source.\<close>

definition vader_features :: "vader_scores \<Rightarrow> real list" where
  "vader_features vader_scores =
     [positive vader_scores, negative vader_scores,
      neutral vader_scores, compound vader_scores]"

text \<open>
  \<open>np.concatenate([bert_embedding, vader_features])\<close>: an embedding without axes cannot be
  concatenated and raises \<open>ValueError\<close>; a vector is extended by the four scores.
\<close>

definition concatenate :: "ndarray \<Rightarrow> real list \<Rightarrow> py_error + real list" where
  "concatenate embedding features =
    (case embedding of
       Array0 x \<Rightarrow>
        Inl (ValueError (str ''zero-dimensional arrays cannot be concatenated''))
     | Array1 v \<Rightarrow> Inr (v @ features))"

text \<open>\<open>bert_embedding.tolist()\<close>: a float for an array without axes, a list for a vector.\<close>

definition tolist :: "ndarray \<Rightarrow> pyvalue" where
  "tolist embedding = (case embedding of Array0 x \<Rightarrow> PyFloat x | Array1 v \<Rightarrow> PyFloatList v)"

text \<open>
  The body of the \<open>try\<close> block of \<open>analyze_journal_text\<close>: it returns the updated
  results, or the results untouched when no embedding is available, or the exception that
  leaves the block. The dictionary is updated by the last statement only, so that an
  exception leaves it as it was.
\<close>

definition ml_analysis ::
  "(pystr \<Rightarrow> pystr) \<Rightarrow> MLService \<Rightarrow> pystr \<Rightarrow> vader_scores \<Rightarrow> pydict
     \<Rightarrow> (py_error + pydict) \<times> event list" where
  "ml_analysis lower self text vader_scores results =
    (let (bert_embedding, t1) = get_bert_embedding lower self text
     in case bert_embedding of
          None \<Rightarrow> (Inr results, t1)
        | Some embedding \<Rightarrow>
           (case concatenate embedding (vader_features vader_scores) of
              Inl e \<Rightarrow> (Inl e, t1 @ [Call_concatenate])
            | Inr combined_features \<Rightarrow>
               (case scale_and_classify self combined_features of
                  (Inl e, t2) \<Rightarrow> (Inl e, t1 @ [Call_concatenate] @ t2)
                | (Inr (prediction, confidence), t2) \<Rightarrow>
                   (let predicted_severity =
                          (case severity_map prediction of
                             None \<Rightarrow> str ''Unknown''
                           | Some label \<Rightarrow> label)
                    in (Inr (results ++
                          [str ''ml_prediction'' \<mapsto> PyInt prediction,
                           str ''predicted_severity'' \<mapsto> PyStr predicted_severity,
                           str ''confidence'' \<mapsto> PyFloat confidence,
                           str ''bert_embedding'' \<mapsto> tolist embedding,
                           str ''recommendations'' \<mapsto>
                             PyStrList (get_journal_recommendations
                               predicted_severity vader_scores)]),
                        t1 @ [Call_concatenate] @ t2)))))"

text \<open>The dictionary that \<open>analyze_journal_text\<close> starts from (\<open># Initialize results\<close>).\<close>

definition initial_results :: "pystr \<Rightarrow> vader_scores \<Rightarrow> pydict" where
  "initial_results text vader_scores =
     [str ''text_length'' \<mapsto> PyInt (int (length text)),
      str ''word_count'' \<mapsto> PyInt (int (length (split text))),
      str ''vader_scores'' \<mapsto> PyScores vader_scores,
      str ''analysis_type'' \<mapsto> PyStr (str ''Journal'')]"

definition analyze_journal_text ::
  "(pystr \<Rightarrow> pystr) \<Rightarrow> MLService \<Rightarrow> pystr \<Rightarrow> pydict \<times> event list" where
  "analyze_journal_text lower self text =
    (if text = [] \<or> length (strip text) < 10 then
       ([str ''error'' \<mapsto> PyStr (str ''Text too short for analysis''),
         str ''analysis_type'' \<mapsto> PyStr (str ''Journal'')], [])
     else
       let (vader_scores, t1) = get_vader_scores lower self text;
           results = initial_results text vader_scores;
           (results, t2) =
             (if model_loaded self then
                (case ml_analysis lower self text vader_scores results of
                   (Inr updated, t) \<Rightarrow> (updated, t)
                 | (Inl e, t) \<Rightarrow>
                    (results(str ''ml_error'' \<mapsto> PyStr (str_of_error e)),
                     t @ [Log_error (str ''Error in ML analysis: '' @ str_of_error e)]))
              else (results, []));
           results =
             (if results (str ''predicted_severity'') = None
              then results ++ fallback_analysis vader_scores else results)
       in (results, t1 @ t2))"

section \<open>The questionnaire bands as the specification words them\<close>

text \<open>
  The fixed breakpoints of the scale, each band with both of its bounds: at most 4 is
  Minimal, 5 to 9 Mild, 10 to 14 Moderate, 15 to 19 Moderately Severe, 20 and above
  Severe.
\<close>

definition phq9_band :: "int \<Rightarrow> pystr" where
  "phq9_band score =
    (if score \<le> 4 then str ''Minimal''
     else if 5 \<le> score \<and> score \<le> 9 then str ''Mild''
     else if 10 \<le> score \<and> score \<le> 14 then str ''Moderate''
     else if 15 \<le> score \<and> score \<le> 19 then str ''Moderately Severe''
     else str ''Severe'')"

section \<open>The order of the rule-based labels\<close>

text \<open>Minimal below Mild below Moderate; any other label ranks above the three.\<close>

definition severity_rank :: "pystr \<Rightarrow> nat" where
  "severity_rank label =
    (if label = str ''Minimal'' then 0 else if label = str ''Mild'' then 1
     else if label = str ''Moderate'' then 2 else 3)"

text \<open>Scores on which neither sentiment advisory fires: with them,
  \<open>get_journal_recommendations\<close> returns the base list of the band.\<close>

definition no_extras :: vader_scores where
  "no_extras = \<lparr>positive = 1, negative = 0, neutral = 0, compound = 0\<rparr>"

section \<open>The calls of the model path\<close>

text \<open>Embedding extraction, feature fusion, scaling and classification.\<close>

definition ml_events :: "event set" where
  "ml_events = {Call_get_bert_embedding, Call_tokenizer, Call_bert_model, Call_concatenate,
                Call_scaler_transform, Call_predict, Call_predict_proba}"

section \<open>Sample artifacts\<close>

text \<open>
  Concrete artifact stores on which the service is initialised and run: one with every
  artifact present, whose classifier predicts a given class code, one without the
  classifier file, one whose tokenizer raises when called, one whose encoder has a single
  hidden dimension and one whose classifier raises in \<open>predict\<close>. \<open>ascii_lower\<close> is
  \<open>str.lower\<close> on ASCII text.
\<close>

definition ascii_lower :: "pystr \<Rightarrow> pystr" where
  "ascii_lower s = map (\<lambda>c. if 0x41 \<le> c \<and> c \<le> 0x5A then c + 0x20 else c) s"

definition sample_text :: pystr where
  "sample_text = str ''I feel sad and tired today''"

definition sample_polarity :: "pystr \<Rightarrow> py_error + (pystr \<rightharpoonup> real)" where
  "sample_polarity t =
     Inr [str ''pos'' \<mapsto> 0.0, str ''neg'' \<mapsto> 0.45, str ''neu'' \<mapsto> 0.55,
          str ''compound'' \<mapsto> - 0.7]"

definition sample_classifier :: "int \<Rightarrow> sk_classifier" where
  "sample_classifier code =
     \<lparr>predict = (\<lambda>x. Inr code), predict_proba = (\<lambda>x. Inr [0.1, 0.6, 0.3])\<rparr>"

definition sample_store :: artifact_store where
  "sample_store =
     \<lparr>ml_imports_ok = True, bert_dir_exists = True,
      tokenizer_from_pretrained = Inr (\<lambda>t. Inr (101 # t @ [102])),
      model_from_pretrained = Inr (\<lambda>ids. Inr [0.25, - 0.5]),
      model_eval = Inr (),
      new_sentiment_analyzer = Inr sample_polarity,
      scaler_file_exists = True, load_scaler = Inr (\<lambda>x. Inr x),
      classifier_file_exists = True, load_classifier = Inr (sample_classifier 7)\<rparr>"

definition no_classifier_store :: artifact_store where
  "no_classifier_store = sample_store\<lparr>classifier_file_exists := False\<rparr>"

definition failing_tokenizer_store :: artifact_store where
  "failing_tokenizer_store =
     sample_store\<lparr>tokenizer_from_pretrained :=
       Inr (\<lambda>t. Inl (LibraryError (str ''tokenizer failed'')))\<rparr>"

definition one_component_store :: artifact_store where
  "one_component_store =
     sample_store\<lparr>model_from_pretrained := Inr (\<lambda>ids. Inr [0.25])\<rparr>"

definition failing_predict_store :: artifact_store where
  "failing_predict_store =
     sample_store\<lparr>load_classifier :=
       Inr \<lparr>predict = (\<lambda>x. Inl (LibraryError (str ''predict failed''))),
            predict_proba = (\<lambda>x. Inr [0.1, 0.6, 0.3])\<rparr>\<rparr>"

section \<open>Literals\<close>

lemma str_eq_iff [simp]: "str a = str b \<longleftrightarrow> a = b"
  by (simp add: str_def inj_of_char)

text \<open>No literal of ASCII characters starts with the warning sign.\<close>

lemma urgent_advisory_not_literal: "urgent_advisory \<noteq> str s"
proof
  assume eq: "urgent_advisory = str s"
  then obtain c cs where "s = c # cs" and "(0x26A0::nat) = of_char c"
    by (cases s) (auto simp: urgent_advisory_def str_def)
  then have "(0x26A0::nat) mod 256 = 0x26A0" by (metis of_char_mod_256)
  then show False by simp
qed

section \<open>Properties of the questionnaire scorer\<close>

lemma sum_list_bounds:
  "\<forall>v\<in>set xs. 0 \<le> v \<and> v \<le> (3::int) \<Longrightarrow>
   0 \<le> sum_list xs \<and> sum_list xs \<le> 3 * int (length xs)"
proof (induction xs)
  case Nil
  then show ?case by simp
next
  case (Cons x xs)
  then have "0 \<le> x" "x \<le> 3" "0 \<le> sum_list xs" "sum_list xs \<le> 3 * int (length xs)"
    by simp_all
  then show ?case by simp
qed

text \<open>
  C1 (as amended). A sequence whose length is not 9 is rejected with the \<open>ValueError\<close>
  rather than scored, and the scorer never corrects its input: whenever it produces a
  result, the sequence has length 9 and the total is the sum of the values as given.
\<close>

theorem analyze_phq9_validation:
  "(length responses \<noteq> 9 \<longrightarrow>
      analyze_phq9 responses = Inl (ValueError (str ''PHQ-9 requires exactly 9 responses''))) \<and>
   (\<forall>r. analyze_phq9 responses = Inr r \<longrightarrow>
      length responses = 9 \<and> r (str ''total_score'') = Some (PyInt (sum_list responses)))"
  by (auto simp add: analyze_phq9_def Let_def split: prod.splits if_splits)

theorem analyze_phq9_validation_witness:
  "length [1, 2 :: int] \<noteq> 9 \<and>
   analyze_phq9 [1, 2] = Inl (ValueError (str ''PHQ-9 requires exactly 9 responses'')) \<and>
   \<not> isl (analyze_phq9 [0, 1, 2, 3, 0, 1, 2, 3, 0]) \<and>
   projr (analyze_phq9 [0, 1, 2, 3, 0, 1, 2, 3, 0]) (str ''total_score'') = Some (PyInt 12)"
proof -
  have s: "\<not> isl (analyze_phq9 [0, 1, 2, 3, 0, 1, 2, 3, 0])"
    by (simp add: analyze_phq9_def)
  then have e: "analyze_phq9 [0, 1, 2, 3, 0, 1, 2, 3, 0] =
                  Inr (projr (analyze_phq9 [0, 1, 2, 3, 0, 1, 2, 3, 0]))"
    by simp
  have t: "projr (analyze_phq9 [0, 1, 2, 3, 0, 1, 2, 3, 0]) (str ''total_score'') =
             Some (PyInt 12)"
    using analyze_phq9_validation [of "[0, 1, 2, 3, 0, 1, 2, 3, 0]"] e by simp
  have n: "length [1, 2 :: int] \<noteq> 9" by simp
  have v: "analyze_phq9 [1, 2] = Inl (ValueError (str ''PHQ-9 requires exactly 9 responses''))"
    using analyze_phq9_validation [of "[1, 2]"] by simp
  show ?thesis by (intro conjI n v s t)
qed

text \<open>
  C1 as stated fails: nine responses with the values 7 and -1 among them, both outside
  0..3, raise nothing and are scored 6, Mild.
\<close>

theorem analyze_phq9_out_of_range_counterexample:
  "analyze_phq9 [7, 0, 0, 0, 0, 0, 0, 0, -1] =
     Inr [str ''total_score'' \<mapsto> PyInt 6,
          str ''max_score'' \<mapsto> PyInt 27,
          str ''severity'' \<mapsto> PyStr (str ''Mild''),
          str ''description'' \<mapsto> PyStr (str ''Mild depression''),
          str ''recommendations'' \<mapsto> PyStrList (get_phq9_recommendations (str ''Mild'') 6),
          str ''analysis_type'' \<mapsto> PyStr (str ''PHQ-9'')]"
  by (simp add: analyze_phq9_def)

text \<open>
  C2. For nine responses, each in 0..3, the scorer returns a result whose total score is
  the sum of the responses, between 0 and 27, and whose severity is the band of that total
  under the fixed breakpoints.
\<close>

theorem analyze_phq9_score_and_severity:
  assumes "length responses = 9" and "\<forall>v\<in>set responses. 0 \<le> v \<and> v \<le> 3"
  shows "\<exists>r. analyze_phq9 responses = Inr r \<and>
           r (str ''total_score'') = Some (PyInt (sum_list responses)) \<and>
           0 \<le> sum_list responses \<and> sum_list responses \<le> 27 \<and>
           r (str ''severity'') = Some (PyStr (phq9_band (sum_list responses)))"
  using sum_list_bounds[OF assms(2)] assms(1)
  by (simp add: analyze_phq9_def Let_def phq9_band_def split: prod.splits)

theorem analyze_phq9_score_and_severity_witness:
  "length [3, 3, 3, 3, 2, 2, 1, 0, 1 :: int] = 9 \<and>
   list_all (\<lambda>v. 0 \<le> v \<and> v \<le> 3) [3, 3, 3, 3, 2, 2, 1, 0, 1 :: int] \<and>
   (\<exists>r. analyze_phq9 [3, 3, 3, 3, 2, 2, 1, 0, 1] = Inr r \<and>
        r (str ''total_score'') = Some (PyInt 18) \<and>
        r (str ''severity'') = Some (PyStr (str ''Moderately Severe'')))"
  using analyze_phq9_score_and_severity [of "[3, 3, 3, 3, 2, 2, 1, 0, 1]"]
  by (simp add: phq9_band_def)

text \<open>The advisory is put in front of the list of the band, and no band's list holds it.\<close>

lemma get_phq9_recommendations_urgent:
  "get_phq9_recommendations sev score =
     (if 15 \<le> score then [urgent_advisory] else []) @ get_phq9_recommendations sev 0"
  by (simp add: get_phq9_recommendations_def)

lemma urgent_advisory_not_in_base:
  "urgent_advisory \<notin> set (get_phq9_recommendations sev 0)"
  by (simp add: get_phq9_recommendations_def urgent_advisory_not_literal)

lemma analyze_phq9_recommendations:
  "length responses = 9 \<Longrightarrow>
   \<exists>r sev. analyze_phq9 responses = Inr r \<and>
     r (str ''recommendations'') =
       Some (PyStrList (get_phq9_recommendations sev (sum_list responses)))"
  by (auto simp add: analyze_phq9_def Let_def split: prod.splits)

text \<open>
  C7. For nine responses, each in 0..3, the recommendation list of the result starts with
  the urgent advisory exactly when the total score is at least 15, and the advisory occurs
  anywhere in the list exactly then: below 15 it is absent.
\<close>

theorem phq9_urgent_advisory_iff:
  assumes "length responses = 9" and "\<forall>v\<in>set responses. 0 \<le> v \<and> v \<le> 3"
  shows "\<exists>r recs. analyze_phq9 responses = Inr r \<and>
           r (str ''recommendations'') = Some (PyStrList recs) \<and>
           ((\<exists>rest. recs = urgent_advisory # rest) \<longleftrightarrow> 15 \<le> sum_list responses) \<and>
           (urgent_advisory \<in> set recs \<longleftrightarrow> 15 \<le> sum_list responses)"
proof -
  let ?t = "sum_list responses"
  obtain r sev where r: "analyze_phq9 responses = Inr r"
    and recs: "r (str ''recommendations'') = Some (PyStrList (get_phq9_recommendations sev ?t))"
    using analyze_phq9_recommendations [OF assms(1)] by blast
  let ?recs = "get_phq9_recommendations sev ?t"
  have base: "urgent_advisory \<notin> set (get_phq9_recommendations sev 0)"
    by (rule urgent_advisory_not_in_base)
  have split: "?recs = (if 15 \<le> ?t then [urgent_advisory] else []) @ get_phq9_recommendations sev 0"
    by (rule get_phq9_recommendations_urgent)
  have hd_iff: "(\<exists>rest. ?recs = urgent_advisory # rest) \<longleftrightarrow> 15 \<le> ?t"
  proof (cases "15 \<le> ?t")
    case True
    then show ?thesis using split by simp
  next
    case False
    then have "?recs = get_phq9_recommendations sev 0" using split by simp
    then have "urgent_advisory \<notin> set ?recs" using base by simp
    then show ?thesis using False by auto
  qed
  have mem_iff: "urgent_advisory \<in> set ?recs \<longleftrightarrow> 15 \<le> ?t"
    using base by (subst split) simp
  show ?thesis
    using r recs hd_iff mem_iff by blast
qed

theorem phq9_urgent_advisory_iff_witness:
  "length [3, 3, 3, 3, 2, 2, 1, 0, 1 :: int] = 9 \<and>
   list_all (\<lambda>v. 0 \<le> v \<and> v \<le> 3) [3, 3, 3, 3, 2, 2, 1, 0, 1 :: int] \<and>
   (\<exists>r recs. analyze_phq9 [3, 3, 3, 3, 2, 2, 1, 0, 1] = Inr r \<and>
        r (str ''recommendations'') = Some (PyStrList recs) \<and>
        (\<exists>rest. recs = urgent_advisory # rest) \<and> urgent_advisory \<in> set recs)"
  using phq9_urgent_advisory_iff [of "[3, 3, 3, 3, 2, 2, 1, 0, 1]"]
  by simp

section \<open>Properties of the rule-based estimator\<close>

lemma fallback_analysis_severity:
  "fallback_analysis vs (str ''predicted_severity'') =
     Some (PyStr (if compound vs \<le> - 0.5 \<or> negative vs \<ge> 0.4 then str ''Moderate''
                  else if compound vs \<le> - 0.2 \<or> negative vs \<ge> 0.2 then str ''Mild''
                  else str ''Minimal''))"
  by (simp add: fallback_analysis_def Let_def)

text \<open>
  C3. The rule-based estimator returns, for any four scores, a dictionary with exactly the
  keys \<open>predicted_severity\<close>, \<open>confidence\<close>, \<open>method\<close> and \<open>recommendations\<close>. The severity
  is Moderate when compound is at most -0.5 or negative at least 0.4; otherwise Mild when
  compound is at most -0.2 or negative at least 0.2; otherwise Minimal. The confidence is
  0.7 and the method \<open>rule_based\<close>.
\<close>

theorem fallback_analysis_rules:
  "(compound vs \<le> - 0.5 \<or> negative vs \<ge> 0.4 \<longrightarrow>
      fallback_analysis vs (str ''predicted_severity'') = Some (PyStr (str ''Moderate''))) \<and>
   (\<not> (compound vs \<le> - 0.5 \<or> negative vs \<ge> 0.4) \<and>
    (compound vs \<le> - 0.2 \<or> negative vs \<ge> 0.2) \<longrightarrow>
      fallback_analysis vs (str ''predicted_severity'') = Some (PyStr (str ''Mild''))) \<and>
   (\<not> (compound vs \<le> - 0.5 \<or> negative vs \<ge> 0.4) \<and>
    \<not> (compound vs \<le> - 0.2 \<or> negative vs \<ge> 0.2) \<longrightarrow>
      fallback_analysis vs (str ''predicted_severity'') = Some (PyStr (str ''Minimal''))) \<and>
   fallback_analysis vs (str ''confidence'') = Some (PyFloat 0.7) \<and>
   fallback_analysis vs (str ''method'') = Some (PyStr (str ''rule_based'')) \<and>
   dom (fallback_analysis vs) =
     {str ''predicted_severity'', str ''confidence'', str ''method'', str ''recommendations''}"
  by (auto simp add: fallback_analysis_def Let_def)

theorem fallback_analysis_rules_witness:
  "fallback_analysis \<lparr>positive = 0, negative = 0.1, neutral = 0.9, compound = - 0.6\<rparr>
     (str ''predicted_severity'') = Some (PyStr (str ''Moderate'')) \<and>
   fallback_analysis \<lparr>positive = 0, negative = 0.4, neutral = 0.6, compound = 0\<rparr>
     (str ''predicted_severity'') = Some (PyStr (str ''Moderate'')) \<and>
   fallback_analysis \<lparr>positive = 0.1, negative = 0.25, neutral = 0.65, compound = - 0.1\<rparr>
     (str ''predicted_severity'') = Some (PyStr (str ''Mild'')) \<and>
   fallback_analysis \<lparr>positive = 0.5, negative = 0.1, neutral = 0.4, compound = 0.3\<rparr>
     (str ''predicted_severity'') = Some (PyStr (str ''Minimal'')) \<and>
   fallback_analysis \<lparr>positive = 0.5, negative = 0.1, neutral = 0.4, compound = 0.3\<rparr>
     (str ''confidence'') = Some (PyFloat 0.7)"
  using fallback_analysis_rules [of "\<lparr>positive = 0, negative = 0.1, neutral = 0.9, compound = - 0.6\<rparr>"]
        fallback_analysis_rules [of "\<lparr>positive = 0, negative = 0.4, neutral = 0.6, compound = 0\<rparr>"]
        fallback_analysis_rules [of "\<lparr>positive = 0.1, negative = 0.25, neutral = 0.65, compound = - 0.1\<rparr>"]
        fallback_analysis_rules [of "\<lparr>positive = 0.5, negative = 0.1, neutral = 0.4, compound = 0.3\<rparr>"]
  by simp

text \<open>
  C10. The estimator is monotone in negativity: when the compound score of \<open>s'\<close> is at
  most that of \<open>s\<close> and the negative score of \<open>s'\<close> at least that of \<open>s\<close>, the label of
  \<open>s'\<close> ranks at least as high as the label of \<open>s\<close>.
\<close>

theorem fallback_analysis_monotone:
  assumes "compound s' \<le> compound s" and "negative s' \<ge> negative s"
  shows "\<exists>a b. fallback_analysis s (str ''predicted_severity'') = Some (PyStr a) \<and>
               fallback_analysis s' (str ''predicted_severity'') = Some (PyStr b) \<and>
               severity_rank a \<le> severity_rank b"
  using assms by (simp add: fallback_analysis_severity severity_rank_def)

theorem fallback_analysis_monotone_witness:
  "fallback_analysis \<lparr>positive = 0.2, negative = 0.1, neutral = 0.7, compound = 0.1\<rparr>
     (str ''predicted_severity'') = Some (PyStr (str ''Minimal'')) \<and>
   fallback_analysis \<lparr>positive = 0.1, negative = 0.3, neutral = 0.6, compound = - 0.3\<rparr>
     (str ''predicted_severity'') = Some (PyStr (str ''Mild'')) \<and>
   severity_rank (str ''Minimal'') \<le> severity_rank (str ''Mild'')"
  using fallback_analysis_monotone
    [of "\<lparr>positive = 0.1, negative = 0.3, neutral = 0.6, compound = - 0.3\<rparr>"
        "\<lparr>positive = 0.2, negative = 0.1, neutral = 0.7, compound = 0.1\<rparr>"]
  by (simp add: fallback_analysis_severity severity_rank_def)

section \<open>Properties of the journal recommendations\<close>

lemma challenge_not_pleasant: "challenge_advisory \<noteq> pleasant_advisory"
  by (simp add: challenge_advisory_def pleasant_advisory_def)

lemma journal_base_no_advisory:
  "challenge_advisory \<notin> set (get_journal_recommendations sev no_extras)"
  "pleasant_advisory \<notin> set (get_journal_recommendations sev no_extras)"
  by (simp_all add: get_journal_recommendations_def no_extras_def
        challenge_advisory_def pleasant_advisory_def)

lemma get_journal_recommendations_split:
  "get_journal_recommendations sev vs =
     get_journal_recommendations sev no_extras @
     (if negative vs > 0.3 then [challenge_advisory] else []) @
     (if positive vs < 0.1 then [pleasant_advisory] else [])"
  by (simp add: get_journal_recommendations_def no_extras_def)

text \<open>
  C8. For every label and scores, the journal recommendations are the base list of the
  band, then the advisory on negative thought patterns when negative is above 0.3, then the
  advisory on pleasant activities when positive is below 0.1. Each advisory occurs in the
  list exactly under its own condition, whatever the other condition is.
\<close>

theorem journal_advisories_iff:
  "get_journal_recommendations sev vs =
     get_journal_recommendations sev no_extras @
     (if negative vs > 0.3 then [challenge_advisory] else []) @
     (if positive vs < 0.1 then [pleasant_advisory] else []) \<and>
   (challenge_advisory \<in> set (get_journal_recommendations sev vs) \<longleftrightarrow> negative vs > 0.3) \<and>
   (pleasant_advisory \<in> set (get_journal_recommendations sev vs) \<longleftrightarrow> positive vs < 0.1)"
proof -
  note split = get_journal_recommendations_split [of sev vs]
  have c: "challenge_advisory \<in> set (get_journal_recommendations sev vs) \<longleftrightarrow> negative vs > 0.3"
    using journal_base_no_advisory(1) [of sev] challenge_not_pleasant
    by (subst split) auto
  have p: "pleasant_advisory \<in> set (get_journal_recommendations sev vs) \<longleftrightarrow> positive vs < 0.1"
    using journal_base_no_advisory(2) [of sev] challenge_not_pleasant
    by (subst split) auto
  show ?thesis using split c p by blast
qed

theorem journal_advisories_iff_witness:
  "get_journal_recommendations (str ''Mild'')
      \<lparr>positive = 0.05, negative = 0.35, neutral = 0.6, compound = - 0.3\<rparr> =
     [str ''Continue regular journaling'',
      str ''Focus on positive coping strategies'',
      str ''Consider talking to someone you trust'',
      str ''Practice self-compassion'',
      challenge_advisory, pleasant_advisory]"
  using journal_advisories_iff
    [of "str ''Mild''" "\<lparr>positive = 0.05, negative = 0.35, neutral = 0.6, compound = - 0.3\<rparr>"]
  by (simp add: get_journal_recommendations_def no_extras_def)

section \<open>Properties of loading\<close>

lemma load_models_failed_not_loaded [simp]:
  "\<not> model_loaded (fst (load_models_failed e self t))"
  by (simp add: load_models_failed_def)

lemma load_models_loaded:
  assumes "model_loaded (fst (load_models store self))"
  shows "bert_model (fst (load_models store self)) \<noteq> None \<and>
         vader_analyzer (fst (load_models store self)) \<noteq> None \<and>
         scaler (fst (load_models store self)) \<noteq> None \<and>
         classifier (fst (load_models store self)) \<noteq> None"
  using assms
  by (auto simp add: load_models_def Let_def split: prod.splits option.splits if_splits)

lemma MLService_init_loaded:
  assumes "model_loaded (fst (MLService_init store))"
  shows "bert_model (fst (MLService_init store)) \<noteq> None \<and>
         scaler (fst (MLService_init store)) \<noteq> None \<and>
         classifier (fst (MLService_init store)) \<noteq> None"
  using assms load_models_loaded [of store]
  by (simp add: MLService_init_def)

section \<open>Properties of the journal analysis\<close>

lemma strip_Nil [simp]: "strip [] = []" by (simp add: strip_def)

lemma get_vader_scores_events:
  "set (snd (get_vader_scores lower self text)) \<subseteq>
     {Call_get_vader_scores, Call_polarity_scores} \<union> range Log_error"
  by (auto simp add: get_vader_scores_def Let_def split: option.splits sum.splits)

lemma get_vader_scores_no_ml_events:
  "set (snd (get_vader_scores lower self text)) \<inter> ml_events = {}"
  using get_vader_scores_events [of lower self "text"] by (auto simp add: ml_events_def)

lemma get_bert_embedding_tokenizer_raises:
  assumes "bert_model self = Some model" and "bert_tokenizer self = Some tokenizer"
    and "tokenizer (preprocess_text lower text) = Inl e"
  shows "get_bert_embedding lower self text =
           (None, [Call_get_bert_embedding, Call_tokenizer,
                   Log_error (str ''Error getting BERT embedding: '' @ str_of_error e)])"
  using assms by (simp add: get_bert_embedding_def)

lemma get_bert_embedding_model_raises:
  assumes "bert_model self = Some model" and "bert_tokenizer self = Some tokenizer"
    and "tokenizer (preprocess_text lower text) = Inr inputs" and "model inputs = Inl e"
  shows "get_bert_embedding lower self text =
           (None, [Call_get_bert_embedding, Call_tokenizer, Call_bert_model,
                   Log_error (str ''Error getting BERT embedding: '' @ str_of_error e)])"
  using assms by (simp add: get_bert_embedding_def)

lemma scale_and_classify_transform_raises:
  assumes "scaler self = Some transform" and "transform x = Inl e"
  shows "scale_and_classify self x = (Inl e, [Call_scaler_transform])"
  using assms by (simp add: scale_and_classify_def)

lemma scale_and_classify_predict_raises:
  assumes "scaler self = Some transform" and "transform x = Inr y"
    and "classifier self = Some clf" and "predict clf y = Inl e"
  shows "scale_and_classify self x = (Inl e, [Call_scaler_transform, Call_predict])"
  using assms by (simp add: scale_and_classify_def)

lemma scale_and_classify_predict_proba_raises:
  assumes "scaler self = Some transform" and "transform x = Inr y"
    and "classifier self = Some clf" and "predict clf y = Inr code"
    and "predict_proba clf y = Inl e"
  shows "scale_and_classify self x =
           (Inl e, [Call_scaler_transform, Call_predict, Call_predict_proba])"
  using assms by (simp add: scale_and_classify_def)

lemma initial_results_no_severity [simp]:
  "initial_results text vs (str ''predicted_severity'') = None"
  "initial_results text vs (str ''ml_error'') = None"
  "initial_results text vs (str ''method'') = None"
  by (simp_all add: initial_results_def)

lemma analyze_not_loaded:
  assumes "10 \<le> length (strip text)" and "\<not> model_loaded self"
  shows "analyze_journal_text lower self text =
          (initial_results text (fst (get_vader_scores lower self text)) ++
             fallback_analysis (fst (get_vader_scores lower self text)),
           snd (get_vader_scores lower self text))"
proof -
  obtain vs t1 where v: "get_vader_scores lower self text = (vs, t1)"
    by (cases "get_vader_scores lower self text")
  have ne: "text \<noteq> []" using assms(1) by auto
  have none: "initial_results text vs (str ''predicted_severity'') = None"
    by (simp add: initial_results_def)
  show ?thesis
    using assms ne none by (simp add: analyze_journal_text_def v)
qed

lemma analyze_embedding_none:
  assumes "10 \<le> length (strip text)" and "model_loaded self"
    and "get_vader_scores lower self text = (vs, t1)"
    and "get_bert_embedding lower self text = (None, t2)"
  shows "analyze_journal_text lower self text =
           (initial_results text vs ++ fallback_analysis vs, t1 @ t2)"
proof -
  have ne: "text \<noteq> []" using assms(1) by auto
  have ml: "ml_analysis lower self text vs (initial_results text vs) =
              (Inr (initial_results text vs), t2)"
    by (simp add: ml_analysis_def assms(4))
  show ?thesis
    using assms(1,2) ne by (simp add: analyze_journal_text_def assms(3) ml)
qed

lemma concatenate_raises_iff:
  "concatenate embedding features = Inl e \<longleftrightarrow>
     (\<exists>x. embedding = Array0 x) \<and>
     e = ValueError (str ''zero-dimensional arrays cannot be concatenated'')"
  by (auto simp add: concatenate_def split: ndarray.splits)

lemma concatenate_vector: "concatenate (Array1 v) features = Inr (v @ features)"
  by (simp add: concatenate_def)

lemma squeeze_scalar_iff: "squeeze row = Array0 x \<longleftrightarrow> row = [x]"
  by (auto simp add: squeeze_def split: list.splits)

lemma analyze_fusion_fails:
  assumes "10 \<le> length (strip text)" and "model_loaded self"
    and "get_vader_scores lower self text = (vs, t1)"
    and "get_bert_embedding lower self text = (Some emb, t2)"
    and "concatenate emb (vader_features vs) = Inl e"
  shows "analyze_journal_text lower self text =
           ((initial_results text vs)(str ''ml_error'' \<mapsto> PyStr (str_of_error e)) ++
              fallback_analysis vs,
            t1 @ t2 @ [Call_concatenate] @
              [Log_error (str ''Error in ML analysis: '' @ str_of_error e)])"
proof -
  have ne: "text \<noteq> []" using assms(1) by auto
  have ml: "ml_analysis lower self text vs (initial_results text vs) =
              (Inl e, t2 @ [Call_concatenate])"
    by (simp add: ml_analysis_def assms(4,5))
  show ?thesis
    using assms(1,2) ne by (simp add: analyze_journal_text_def assms(3) ml)
qed

lemma analyze_classify_fails:
  assumes "10 \<le> length (strip text)" and "model_loaded self"
    and "get_vader_scores lower self text = (vs, t1)"
    and "get_bert_embedding lower self text = (Some emb, t2)"
    and "concatenate emb (vader_features vs) = Inr combined"
    and "scale_and_classify self combined = (Inl e, t3)"
  shows "analyze_journal_text lower self text =
           ((initial_results text vs)(str ''ml_error'' \<mapsto> PyStr (str_of_error e)) ++
              fallback_analysis vs,
            t1 @ t2 @ [Call_concatenate] @ t3 @
              [Log_error (str ''Error in ML analysis: '' @ str_of_error e)])"
proof -
  have ne: "text \<noteq> []" using assms(1) by auto
  have ml: "ml_analysis lower self text vs (initial_results text vs) =
              (Inl e, t2 @ [Call_concatenate] @ t3)"
    by (simp add: ml_analysis_def assms(4,5,6))
  show ?thesis
    using assms(1,2) ne by (simp add: analyze_journal_text_def assms(3) ml)
qed

lemma analyze_classified:
  assumes "10 \<le> length (strip text)" and "model_loaded self"
    and "get_vader_scores lower self text = (vs, t1)"
    and "get_bert_embedding lower self text = (Some emb, t2)"
    and "concatenate emb (vader_features vs) = Inr combined"
    and "scale_and_classify self combined = (Inr (prediction, confidence), t3)"
  shows "analyze_journal_text lower self text =
           (initial_results text vs ++
             [str ''ml_prediction'' \<mapsto> PyInt prediction,
              str ''predicted_severity'' \<mapsto>
                PyStr (case severity_map prediction of None \<Rightarrow> str ''Unknown''
                       | Some label \<Rightarrow> label),
              str ''confidence'' \<mapsto> PyFloat confidence,
              str ''bert_embedding'' \<mapsto> tolist emb,
              str ''recommendations'' \<mapsto>
                PyStrList (get_journal_recommendations
                  (case severity_map prediction of None \<Rightarrow> str ''Unknown''
                   | Some label \<Rightarrow> label) vs)],
            t1 @ t2 @ [Call_concatenate] @ t3)"
proof -
  have ne: "text \<noteq> []" using assms(1) by auto
  have ml: "ml_analysis lower self text vs (initial_results text vs) =
      (Inr (initial_results text vs ++
             [str ''ml_prediction'' \<mapsto> PyInt prediction,
              str ''predicted_severity'' \<mapsto>
                PyStr (case severity_map prediction of None \<Rightarrow> str ''Unknown''
                       | Some label \<Rightarrow> label),
              str ''confidence'' \<mapsto> PyFloat confidence,
              str ''bert_embedding'' \<mapsto> tolist emb,
              str ''recommendations'' \<mapsto>
                PyStrList (get_journal_recommendations
                  (case severity_map prediction of None \<Rightarrow> str ''Unknown''
                   | Some label \<Rightarrow> label) vs)]),
       t2 @ [Call_concatenate] @ t3)"
    by (simp add: ml_analysis_def assms(4,5,6) Let_def)
  show ?thesis
    using assms(1,2) ne by (simp add: analyze_journal_text_def assms(3) ml)
qed

section \<open>The sample services\<close>

lemma sample_text_long: "10 \<le> length (strip sample_text)"
  by (simp add: sample_text_def strip_def str_def py_isspace_def)

lemma strip_short: "strip (str ''  so sad   '') = str ''so sad''"
  by (simp add: strip_def str_def py_isspace_def)

lemma no_classifier_service:
  "fst (MLService_init no_classifier_store) =
     \<lparr>bert_model = Some (\<lambda>ids. Inr [0.25, - 0.5]),
      bert_tokenizer = Some (\<lambda>t. Inr (101 # t @ [102])),
      vader_analyzer = Some sample_polarity,
      scaler = Some (\<lambda>x. Inr x), classifier = None, model_loaded = False\<rparr>"
  by (simp add: MLService_init_def load_models_def load_models_bert_def load_models_vader_def
      load_models_scaler_def load_models_classifier_def no_classifier_store_def
      sample_store_def)

lemma sample_service:
  "fst (MLService_init sample_store) =
     \<lparr>bert_model = Some (\<lambda>ids. Inr [0.25, - 0.5]),
      bert_tokenizer = Some (\<lambda>t. Inr (101 # t @ [102])),
      vader_analyzer = Some sample_polarity,
      scaler = Some (\<lambda>x. Inr x), classifier = Some (sample_classifier 7),
      model_loaded = True\<rparr>"
  by (simp add: MLService_init_def load_models_def load_models_bert_def load_models_vader_def
      load_models_scaler_def load_models_classifier_def sample_store_def)

lemma failing_tokenizer_service:
  "fst (MLService_init failing_tokenizer_store) =
     \<lparr>bert_model = Some (\<lambda>ids. Inr [0.25, - 0.5]),
      bert_tokenizer = Some (\<lambda>t. Inl (LibraryError (str ''tokenizer failed''))),
      vader_analyzer = Some sample_polarity,
      scaler = Some (\<lambda>x. Inr x), classifier = Some (sample_classifier 7),
      model_loaded = True\<rparr>"
  by (simp add: MLService_init_def load_models_def load_models_bert_def load_models_vader_def
      load_models_scaler_def load_models_classifier_def failing_tokenizer_store_def
      sample_store_def)

lemma one_component_service:
  "fst (MLService_init one_component_store) =
     \<lparr>bert_model = Some (\<lambda>ids. Inr [0.25]),
      bert_tokenizer = Some (\<lambda>t. Inr (101 # t @ [102])),
      vader_analyzer = Some sample_polarity,
      scaler = Some (\<lambda>x. Inr x), classifier = Some (sample_classifier 7),
      model_loaded = True\<rparr>"
  by (simp add: MLService_init_def load_models_def load_models_bert_def load_models_vader_def
      load_models_scaler_def load_models_classifier_def one_component_store_def
      sample_store_def)

lemma failing_predict_service:
  "fst (MLService_init failing_predict_store) =
     \<lparr>bert_model = Some (\<lambda>ids. Inr [0.25, - 0.5]),
      bert_tokenizer = Some (\<lambda>t. Inr (101 # t @ [102])),
      vader_analyzer = Some sample_polarity,
      scaler = Some (\<lambda>x. Inr x),
      classifier = Some \<lparr>predict = (\<lambda>x. Inl (LibraryError (str ''predict failed''))),
                          predict_proba = (\<lambda>x. Inr [0.1, 0.6, 0.3])\<rparr>,
      model_loaded = True\<rparr>"
  by (simp add: MLService_init_def load_models_def load_models_bert_def load_models_vader_def
      load_models_scaler_def load_models_classifier_def failing_predict_store_def
      sample_store_def)

lemma sample_vader_scores:
  "vader_analyzer self = Some sample_polarity \<Longrightarrow>
   get_vader_scores lower self t =
     (\<lparr>positive = 0.0, negative = 0.45, neutral = 0.55, compound = - 0.7\<rparr>,
      [Call_get_vader_scores, Call_polarity_scores])"
  by (simp add: get_vader_scores_def sample_polarity_def getitem_def Let_def)

section \<open>Main results on the journal analysis\<close>

text \<open>
  C6. A text whose stripped length is below 10, the empty text included, gets the
  too-short error dictionary and nothing else happens: no method of the service is
  entered, no artifact is called and nothing is logged.
\<close>

theorem analyze_journal_text_too_short:
  assumes "length (strip text) < 10"
  shows "analyze_journal_text lower self text =
         ([str ''error'' \<mapsto> PyStr (str ''Text too short for analysis''),
           str ''analysis_type'' \<mapsto> PyStr (str ''Journal'')], [])"
  using assms by (simp add: analyze_journal_text_def)

theorem analyze_journal_text_too_short_witness:
  "length (strip (str ''  so sad   '')) < 10 \<and>
   analyze_journal_text ascii_lower (fst (MLService_init sample_store)) (str ''  so sad   '') =
     ([str ''error'' \<mapsto> PyStr (str ''Text too short for analysis''),
       str ''analysis_type'' \<mapsto> PyStr (str ''Journal'')], []) \<and>
   length (strip []) < 10 \<and>
   analyze_journal_text ascii_lower (fst (MLService_init sample_store)) [] =
     ([str ''error'' \<mapsto> PyStr (str ''Text too short for analysis''),
       str ''analysis_type'' \<mapsto> PyStr (str ''Journal'')], [])"
proof -
  have h1: "length (strip (str ''  so sad   '')) < 10"
    by (simp add: strip_short) (simp add: str_def)
  have h2: "length (strip []) < 10"
    by simp
  show ?thesis
    using h1 h2 analyze_journal_text_too_short [OF h1, of ascii_lower "fst (MLService_init sample_store)"]
      analyze_journal_text_too_short [OF h2, of ascii_lower "fst (MLService_init sample_store)"]
    by simp
qed

text \<open>
  C5. On a text of at least 10 stripped characters, when \<open>model_loaded\<close> is false, or
  when the service as initialised from a store lacks the encoder, the scaler or the
  classifier, the result is the initial results updated with the rule-based estimate on
  the sentiment scores; the only calls are those of \<open>get_vader_scores\<close>, so neither
  embedding extraction, feature fusion, scaling nor the classifier is invoked; and the
  result marks the method \<open>rule_based\<close> and carries no model prediction.
\<close>

theorem rule_based_when_not_loaded:
  assumes "10 \<le> length (strip text)"
    and "\<not> model_loaded self \<or>
         (self = fst (MLService_init store) \<and>
          (bert_model self = None \<or> scaler self = None \<or> classifier self = None))"
  shows "analyze_journal_text lower self text =
           (initial_results text (fst (get_vader_scores lower self text)) ++
              fallback_analysis (fst (get_vader_scores lower self text)),
            snd (get_vader_scores lower self text)) \<and>
         set (snd (analyze_journal_text lower self text)) \<inter> ml_events = {} \<and>
         fst (analyze_journal_text lower self text) (str ''method'') =
           Some (PyStr (str ''rule_based'')) \<and>
         fst (analyze_journal_text lower self text) (str ''ml_prediction'') = None"
proof -
  have nl: "\<not> model_loaded self"
    using assms(2) MLService_init_loaded [of store] by blast
  have eq: "analyze_journal_text lower self text =
           (initial_results text (fst (get_vader_scores lower self text)) ++
              fallback_analysis (fst (get_vader_scores lower self text)),
            snd (get_vader_scores lower self text))"
    by (rule analyze_not_loaded [OF assms(1) nl])
  have ev: "set (snd (analyze_journal_text lower self text)) \<inter> ml_events = {}"
    by (simp add: eq get_vader_scores_no_ml_events)
  have m: "fst (analyze_journal_text lower self text) (str ''method'') =
           Some (PyStr (str ''rule_based''))"
    by (simp add: eq fallback_analysis_def Let_def)
  have p: "fst (analyze_journal_text lower self text) (str ''ml_prediction'') = None"
    by (simp add: eq fallback_analysis_def Let_def initial_results_def)
  show ?thesis using eq ev m p by blast
qed

theorem rule_based_when_not_loaded_witness:
  "10 \<le> length (strip sample_text) \<and>
   classifier (fst (MLService_init no_classifier_store)) = None \<and>
   \<not> model_loaded (fst (MLService_init no_classifier_store)) \<and>
   analyze_journal_text ascii_lower (fst (MLService_init no_classifier_store)) sample_text =
     (initial_results sample_text
        \<lparr>positive = 0.0, negative = 0.45, neutral = 0.55, compound = - 0.7\<rparr> ++
      fallback_analysis \<lparr>positive = 0.0, negative = 0.45, neutral = 0.55, compound = - 0.7\<rparr>,
      [Call_get_vader_scores, Call_polarity_scores]) \<and>
   fst (analyze_journal_text ascii_lower (fst (MLService_init no_classifier_store))
          sample_text) (str ''method'') = Some (PyStr (str ''rule_based''))"
proof -
  let ?svc = "fst (MLService_init no_classifier_store)"
  have c: "classifier ?svc = None" and nl: "\<not> model_loaded ?svc"
    and v: "vader_analyzer ?svc = Some sample_polarity"
    by (simp_all add: no_classifier_service)
  have h: "\<not> model_loaded ?svc \<or>
           (?svc = fst (MLService_init no_classifier_store) \<and>
            (bert_model ?svc = None \<or> scaler ?svc = None \<or> classifier ?svc = None))"
    using c by simp
  note r = rule_based_when_not_loaded [OF sample_text_long h, of ascii_lower]
  have eq: "analyze_journal_text ascii_lower ?svc sample_text =
     (initial_results sample_text
        \<lparr>positive = 0.0, negative = 0.45, neutral = 0.55, compound = - 0.7\<rparr> ++
      fallback_analysis \<lparr>positive = 0.0, negative = 0.45, neutral = 0.55, compound = - 0.7\<rparr>,
      [Call_get_vader_scores, Call_polarity_scores])"
    using r sample_vader_scores [OF v, of ascii_lower sample_text] by simp
  have m: "fst (analyze_journal_text ascii_lower ?svc sample_text) (str ''method'') =
             Some (PyStr (str ''rule_based''))"
    using r by blast
  show ?thesis
    by (intro conjI sample_text_long c nl eq m)
qed

text \<open>
  C4 (as amended). On a text of at least 10 stripped characters with \<open>model_loaded\<close>
  true: when embedding extraction yields no embedding (a failure of the tokenizer or of the
  encoder is caught and logged inside \<open>get_bert_embedding\<close>), the result is the rule-based
  estimate, marked \<open>rule_based\<close>, and carries no \<open>ml_error\<close>; when the embedding is there and
  feature fusion raises \<open>e\<close>, or fusion succeeds and scaling or classification raises \<open>e\<close>,
  the exception is caught, \<open>ml_error\<close> records its text, the error is logged, and the
  result is again the rule-based estimate, marked \<open>rule_based\<close>.
\<close>

theorem ml_failure_falls_back:
  assumes "10 \<le> length (strip text)" and "model_loaded self"
  shows
    "(fst (get_bert_embedding lower self text) = None \<longrightarrow>
        fst (analyze_journal_text lower self text) =
          initial_results text (fst (get_vader_scores lower self text)) ++
          fallback_analysis (fst (get_vader_scores lower self text)) \<and>
        fst (analyze_journal_text lower self text) (str ''ml_error'') = None \<and>
        fst (analyze_journal_text lower self text) (str ''method'') =
          Some (PyStr (str ''rule_based''))) \<and>
     (\<forall>emb e.
        fst (get_bert_embedding lower self text) = Some emb \<and>
        (concatenate emb (vader_features (fst (get_vader_scores lower self text))) = Inl e \<or>
         (\<exists>combined.
            concatenate emb (vader_features (fst (get_vader_scores lower self text))) =
              Inr combined \<and>
            fst (scale_and_classify self combined) = Inl e)) \<longrightarrow>
        fst (analyze_journal_text lower self text) =
          (initial_results text (fst (get_vader_scores lower self text)))
            (str ''ml_error'' \<mapsto> PyStr (str_of_error e)) ++
          fallback_analysis (fst (get_vader_scores lower self text)) \<and>
        fst (analyze_journal_text lower self text) (str ''ml_error'') =
          Some (PyStr (str_of_error e)) \<and>
        fst (analyze_journal_text lower self text) (str ''method'') =
          Some (PyStr (str ''rule_based'')) \<and>
        Log_error (str ''Error in ML analysis: '' @ str_of_error e)
          \<in> set (snd (analyze_journal_text lower self text)))"
proof -
  let ?vs = "fst (get_vader_scores lower self text)"
  let ?r = "fst (analyze_journal_text lower self text)"
  have v: "get_vader_scores lower self text = (?vs, snd (get_vader_scores lower self text))"
    by simp
  have fb: "fallback_analysis ?vs (str ''method'') = Some (PyStr (str ''rule_based''))"
    and fe: "fallback_analysis ?vs (str ''ml_error'') = None"
    by (simp_all add: fallback_analysis_def Let_def)
  have none: "?r = initial_results text ?vs ++ fallback_analysis ?vs \<and>
        ?r (str ''ml_error'') = None \<and>
        ?r (str ''method'') = Some (PyStr (str ''rule_based''))"
    if n: "fst (get_bert_embedding lower self text) = None"
  proof -
    have b: "get_bert_embedding lower self text =
               (None, snd (get_bert_embedding lower self text))"
      using n by (simp add: prod_eq_iff)
    have eq: "?r = initial_results text ?vs ++ fallback_analysis ?vs"
      using analyze_embedding_none [OF assms v b] by simp
    show ?thesis
      using fb fe by (simp add: eq map_add_def)
  qed
  have fails: "?r = (initial_results text ?vs)(str ''ml_error'' \<mapsto> PyStr (str_of_error e)) ++
                 fallback_analysis ?vs \<and>
        ?r (str ''ml_error'') = Some (PyStr (str_of_error e)) \<and>
        ?r (str ''method'') = Some (PyStr (str ''rule_based'')) \<and>
        Log_error (str ''Error in ML analysis: '' @ str_of_error e)
          \<in> set (snd (analyze_journal_text lower self text))"
    if e1: "fst (get_bert_embedding lower self text) = Some emb"
      and e2: "concatenate emb (vader_features ?vs) = Inl e \<or>
               (\<exists>combined. concatenate emb (vader_features ?vs) = Inr combined \<and>
                            fst (scale_and_classify self combined) = Inl e)"
    for emb e
  proof -
    have b: "get_bert_embedding lower self text =
               (Some emb, snd (get_bert_embedding lower self text))"
      using e1 by (simp add: prod_eq_iff)
    have eq: "?r = (initial_results text ?vs)(str ''ml_error'' \<mapsto> PyStr (str_of_error e)) ++
                 fallback_analysis ?vs \<and>
        Log_error (str ''Error in ML analysis: '' @ str_of_error e)
          \<in> set (snd (analyze_journal_text lower self text))"
      using e2
    proof
      assume "concatenate emb (vader_features ?vs) = Inl e"
      then show ?thesis
        using analyze_fusion_fails [OF assms v b] by simp
    next
      assume "\<exists>combined. concatenate emb (vader_features ?vs) = Inr combined \<and>
                          fst (scale_and_classify self combined) = Inl e"
      then obtain combined where k: "concatenate emb (vader_features ?vs) = Inr combined"
        and f: "fst (scale_and_classify self combined) = Inl e"
        by blast
      have c: "scale_and_classify self combined =
                 (Inl e, snd (scale_and_classify self combined))"
        using f by (simp add: prod_eq_iff)
      show ?thesis
        using analyze_classify_fails [OF assms v b k c] by simp
    qed
    have me: "?r (str ''ml_error'') = Some (PyStr (str_of_error e))"
      and mm: "?r (str ''method'') = Some (PyStr (str ''rule_based''))"
      using fb fe eq by (simp_all add: map_add_def)
    show ?thesis
      using eq me mm by blast
  qed
  show ?thesis
    using none fails by blast
qed

theorem ml_failure_falls_back_witness:
  "10 \<le> length (strip sample_text) \<and>
   model_loaded (fst (MLService_init failing_predict_store)) \<and>
   fst (analyze_journal_text ascii_lower (fst (MLService_init failing_predict_store))
          sample_text) (str ''ml_error'') = Some (PyStr (str ''predict failed'')) \<and>
   fst (analyze_journal_text ascii_lower (fst (MLService_init failing_predict_store))
          sample_text) (str ''method'') = Some (PyStr (str ''rule_based'')) \<and>
   model_loaded (fst (MLService_init one_component_store)) \<and>
   fst (analyze_journal_text ascii_lower (fst (MLService_init one_component_store))
          sample_text) (str ''ml_error'') =
     Some (PyStr (str ''zero-dimensional arrays cannot be concatenated'')) \<and>
   fst (analyze_journal_text ascii_lower (fst (MLService_init one_component_store))
          sample_text) (str ''method'') = Some (PyStr (str ''rule_based'')) \<and>
   model_loaded (fst (MLService_init failing_tokenizer_store)) \<and>
   fst (analyze_journal_text ascii_lower (fst (MLService_init failing_tokenizer_store))
          sample_text) (str ''method'') = Some (PyStr (str ''rule_based''))"
proof -
  let ?p = "fst (MLService_init failing_predict_store)"
  let ?o = "fst (MLService_init one_component_store)"
  let ?t = "fst (MLService_init failing_tokenizer_store)"
  let ?vs = "\<lparr>positive = 0.0, negative = 0.45, neutral = 0.55, compound = - 0.7\<rparr>"
  have lp: "model_loaded ?p" and vp: "vader_analyzer ?p = Some sample_polarity"
    by (simp_all add: failing_predict_service)
  have lo: "model_loaded ?o" and vo: "vader_analyzer ?o = Some sample_polarity"
    by (simp_all add: one_component_service)
  have lt: "model_loaded ?t"
    by (simp add: failing_tokenizer_service)
  have bp: "fst (get_bert_embedding ascii_lower ?p sample_text) = Some (Array1 [0.25, - 0.5])"
    by (simp add: failing_predict_service get_bert_embedding_def squeeze_def)
  have vsp: "fst (get_vader_scores ascii_lower ?p sample_text) = ?vs"
    by (simp add: sample_vader_scores [OF vp])
  have kp: "concatenate (Array1 [0.25, - 0.5])
              (vader_features (fst (get_vader_scores ascii_lower ?p sample_text))) =
            Inr ([0.25, - 0.5] @
                 vader_features (fst (get_vader_scores ascii_lower ?p sample_text)))"
    by (rule concatenate_vector)
  have cp: "fst (scale_and_classify ?p
               ([0.25, - 0.5] @
                vader_features (fst (get_vader_scores ascii_lower ?p sample_text)))) =
            Inl (LibraryError (str ''predict failed''))"
    by (simp add: failing_predict_service scale_and_classify_def)
  have bo: "fst (get_bert_embedding ascii_lower ?o sample_text) = Some (Array0 0.25)"
    by (simp add: one_component_service get_bert_embedding_def squeeze_def)
  have ko: "concatenate (Array0 0.25)
              (vader_features (fst (get_vader_scores ascii_lower ?o sample_text))) =
            Inl (ValueError (str ''zero-dimensional arrays cannot be concatenated''))"
    by (simp add: concatenate_def)
  have bt: "fst (get_bert_embedding ascii_lower ?t sample_text) = None"
    by (simp add: failing_tokenizer_service get_bert_embedding_def)
  note wp = ml_failure_falls_back [OF sample_text_long lp, of ascii_lower]
  note wo = ml_failure_falls_back [OF sample_text_long lo, of ascii_lower]
  note wt = ml_failure_falls_back [OF sample_text_long lt, of ascii_lower]
  from wp have wp2:
    "fst (get_bert_embedding ascii_lower ?p sample_text) = Some (Array1 [0.25, - 0.5]) \<and>
     (concatenate (Array1 [0.25, - 0.5])
        (vader_features (fst (get_vader_scores ascii_lower ?p sample_text))) =
        Inl (LibraryError (str ''predict failed'')) \<or>
      (\<exists>combined.
         concatenate (Array1 [0.25, - 0.5])
           (vader_features (fst (get_vader_scores ascii_lower ?p sample_text))) =
           Inr combined \<and>
         fst (scale_and_classify ?p combined) = Inl (LibraryError (str ''predict failed'')))) \<longrightarrow>
     fst (analyze_journal_text ascii_lower ?p sample_text) (str ''ml_error'') =
       Some (PyStr (str_of_error (LibraryError (str ''predict failed'')))) \<and>
     fst (analyze_journal_text ascii_lower ?p sample_text) (str ''method'') =
       Some (PyStr (str ''rule_based''))"
    by blast
  have ep: "fst (analyze_journal_text ascii_lower ?p sample_text) (str ''ml_error'') =
              Some (PyStr (str ''predict failed''))"
    and mp: "fst (analyze_journal_text ascii_lower ?p sample_text) (str ''method'') =
              Some (PyStr (str ''rule_based''))"
    using wp2 bp kp cp by auto
  from wo have wo2:
    "fst (get_bert_embedding ascii_lower ?o sample_text) = Some (Array0 0.25) \<and>
     (concatenate (Array0 0.25)
        (vader_features (fst (get_vader_scores ascii_lower ?o sample_text))) =
        Inl (ValueError (str ''zero-dimensional arrays cannot be concatenated'')) \<or>
      (\<exists>combined.
         concatenate (Array0 0.25)
           (vader_features (fst (get_vader_scores ascii_lower ?o sample_text))) =
           Inr combined \<and>
         fst (scale_and_classify ?o combined) =
           Inl (ValueError (str ''zero-dimensional arrays cannot be concatenated'')))) \<longrightarrow>
     fst (analyze_journal_text ascii_lower ?o sample_text) (str ''ml_error'') =
       Some (PyStr (str_of_error
         (ValueError (str ''zero-dimensional arrays cannot be concatenated'')))) \<and>
     fst (analyze_journal_text ascii_lower ?o sample_text) (str ''method'') =
       Some (PyStr (str ''rule_based''))"
    by blast
  have eo: "fst (analyze_journal_text ascii_lower ?o sample_text) (str ''ml_error'') =
              Some (PyStr (str ''zero-dimensional arrays cannot be concatenated''))"
    and mo: "fst (analyze_journal_text ascii_lower ?o sample_text) (str ''method'') =
              Some (PyStr (str ''rule_based''))"
    using wo2 bo ko by auto
  have mt: "fst (analyze_journal_text ascii_lower ?t sample_text) (str ''method'') =
              Some (PyStr (str ''rule_based''))"
    using wt bt by blast
  show ?thesis
    by (intro conjI sample_text_long lp ep mp lo eo mo lt mt)
qed

text \<open>
  C4 as stated fails for a failure during embedding extraction: with a tokenizer that
  raises, \<open>get_bert_embedding\<close> logs the error and returns no embedding, and the result of
  the analysis has no \<open>ml_error\<close> entry.
\<close>

theorem embedding_failure_counterexample:
  "model_loaded (fst (MLService_init failing_tokenizer_store)) \<and>
   10 \<le> length (strip sample_text) \<and>
   get_bert_embedding ascii_lower (fst (MLService_init failing_tokenizer_store)) sample_text =
     (None, [Call_get_bert_embedding, Call_tokenizer,
             Log_error (str ''Error getting BERT embedding: tokenizer failed'')]) \<and>
   fst (analyze_journal_text ascii_lower (fst (MLService_init failing_tokenizer_store))
          sample_text) (str ''ml_error'') = None"
proof -
  let ?svc = "fst (MLService_init failing_tokenizer_store)"
  have l: "model_loaded ?svc"
    and v: "vader_analyzer ?svc = Some sample_polarity"
    by (simp_all add: failing_tokenizer_service)
  have b: "get_bert_embedding ascii_lower ?svc sample_text =
     (None, [Call_get_bert_embedding, Call_tokenizer,
             Log_error (str ''Error getting BERT embedding: tokenizer failed'')])"
    by (simp add: failing_tokenizer_service get_bert_embedding_def str_def)
  have r: "analyze_journal_text ascii_lower ?svc sample_text =
     (initial_results sample_text
        \<lparr>positive = 0.0, negative = 0.45, neutral = 0.55, compound = - 0.7\<rparr> ++
      fallback_analysis \<lparr>positive = 0.0, negative = 0.45, neutral = 0.55, compound = - 0.7\<rparr>,
      [Call_get_vader_scores, Call_polarity_scores] @
      [Call_get_bert_embedding, Call_tokenizer,
       Log_error (str ''Error getting BERT embedding: tokenizer failed'')])"
    by (rule analyze_embedding_none [OF sample_text_long l sample_vader_scores [OF v] b])
  have e: "fst (analyze_journal_text ascii_lower ?svc sample_text) (str ''ml_error'') = None"
    by (simp add: r fallback_analysis_def Let_def)
  show ?thesis
    by (intro conjI l sample_text_long b e)
qed

lemma severity_map_unmapped:
  "prediction \<notin> {0, 1, 2, 3} \<Longrightarrow> severity_map prediction = None"
  by (simp add: severity_map_def)

lemma unrecognised_label_recommendations:
  assumes "sev \<noteq> str ''Minimal''" and "sev \<noteq> str ''Mild''" and "sev \<noteq> str ''Moderate''"
  shows "get_journal_recommendations sev vs = get_journal_recommendations (str ''Severe'') vs"
  using assms by (simp add: get_journal_recommendations_def)

text \<open>
  C9. For a label other than Minimal, Mild and Moderate the journal recommendations are
  those of Severe, whose base list is the list of the else branch. When the embedding is
  fused with the scores and the classifier predicts a class code outside 0..3, the result
  is labelled Unknown and its recommendations are those of Severe.
\<close>

theorem unrecognised_severity_is_severe:
  "(sev \<noteq> str ''Minimal'' \<and> sev \<noteq> str ''Mild'' \<and> sev \<noteq> str ''Moderate'' \<longrightarrow>
      get_journal_recommendations sev vs = get_journal_recommendations (str ''Severe'') vs \<and>
      get_journal_recommendations sev no_extras =
        [str ''Seek professional help immediately'',
         str ''Share your concerns with trusted people'',
         str ''Use journaling as a tool with professional guidance'',
         str ''Focus on safety and self-care'']) \<and>
   (10 \<le> length (strip text) \<and> model_loaded self \<and>
    fst (get_bert_embedding lower self text) = Some emb \<and>
    concatenate emb (vader_features (fst (get_vader_scores lower self text))) = Inr combined \<and>
    fst (scale_and_classify self combined) = Inr (prediction, confidence) \<and>
    prediction \<notin> {0, 1, 2, 3} \<longrightarrow>
      fst (analyze_journal_text lower self text) (str ''predicted_severity'') =
        Some (PyStr (str ''Unknown'')) \<and>
      fst (analyze_journal_text lower self text) (str ''recommendations'') =
        Some (PyStrList (get_journal_recommendations (str ''Severe'')
                (fst (get_vader_scores lower self text)))))"
proof (intro conjI impI; (elim conjE)?)
  assume "sev \<noteq> str ''Minimal''" "sev \<noteq> str ''Mild''" "sev \<noteq> str ''Moderate''"
  then show "get_journal_recommendations sev vs = get_journal_recommendations (str ''Severe'') vs"
    by (rule unrecognised_label_recommendations)
next
  assume "sev \<noteq> str ''Minimal''" "sev \<noteq> str ''Mild''" "sev \<noteq> str ''Moderate''"
  then show "get_journal_recommendations sev no_extras =
        [str ''Seek professional help immediately'',
         str ''Share your concerns with trusted people'',
         str ''Use journaling as a tool with professional guidance'',
         str ''Focus on safety and self-care'']"
    by (simp add: get_journal_recommendations_def no_extras_def)
next
  let ?vs = "fst (get_vader_scores lower self text)"
  assume long: "10 \<le> length (strip text)" and loaded: "model_loaded self"
    and e: "fst (get_bert_embedding lower self text) = Some emb"
    and f: "concatenate emb (vader_features ?vs) = Inr combined"
    and c: "fst (scale_and_classify self combined) = Inr (prediction, confidence)"
    and p: "prediction \<notin> {0, 1, 2, 3}"
  have v: "get_vader_scores lower self text = (?vs, snd (get_vader_scores lower self text))"
    by simp
  have b: "get_bert_embedding lower self text =
             (Some emb, snd (get_bert_embedding lower self text))"
    using e by (simp add: prod_eq_iff)
  have k: "scale_and_classify self combined =
           (Inr (prediction, confidence), snd (scale_and_classify self combined))"
    using c by (simp add: prod_eq_iff)
  note r = analyze_classified [OF long loaded v b f k]
  have u: "str ''Unknown'' \<noteq> str ''Minimal''" "str ''Unknown'' \<noteq> str ''Mild''"
    "str ''Unknown'' \<noteq> str ''Moderate''"
    by simp_all
  show "fst (analyze_journal_text lower self text) (str ''predicted_severity'') =
          Some (PyStr (str ''Unknown''))"
    by (simp add: r severity_map_unmapped [OF p])
  show "fst (analyze_journal_text lower self text) (str ''recommendations'') =
          Some (PyStrList (get_journal_recommendations (str ''Severe'') ?vs))"
    by (simp add: r severity_map_unmapped [OF p] unrecognised_label_recommendations [OF u])
qed

theorem unrecognised_severity_is_severe_witness:
  "get_journal_recommendations (str ''Unknown'')
     \<lparr>positive = 0.0, negative = 0.45, neutral = 0.55, compound = - 0.7\<rparr> =
     [str ''Seek professional help immediately'',
      str ''Share your concerns with trusted people'',
      str ''Use journaling as a tool with professional guidance'',
      str ''Focus on safety and self-care'',
      challenge_advisory, pleasant_advisory] \<and>
   model_loaded (fst (MLService_init sample_store)) \<and>
   predict (sample_classifier 7) [] = Inr 7 \<and>
   fst (analyze_journal_text ascii_lower (fst (MLService_init sample_store)) sample_text)
     (str ''predicted_severity'') = Some (PyStr (str ''Unknown'')) \<and>
   fst (analyze_journal_text ascii_lower (fst (MLService_init sample_store)) sample_text)
     (str ''recommendations'') =
     Some (PyStrList
       [str ''Seek professional help immediately'',
        str ''Share your concerns with trusted people'',
        str ''Use journaling as a tool with professional guidance'',
        str ''Focus on safety and self-care'',
        challenge_advisory, pleasant_advisory])"
proof -
  let ?svc = "fst (MLService_init sample_store)"
  let ?vs = "\<lparr>positive = 0.0, negative = 0.45, neutral = 0.55, compound = - 0.7\<rparr>"
  let ?gv = "fst (get_vader_scores ascii_lower ?svc sample_text)"
  have sev: "get_journal_recommendations (str ''Severe'') ?vs =
     [str ''Seek professional help immediately'',
      str ''Share your concerns with trusted people'',
      str ''Use journaling as a tool with professional guidance'',
      str ''Focus on safety and self-care'',
      challenge_advisory, pleasant_advisory]"
    by (simp add: get_journal_recommendations_def)
  have l: "model_loaded ?svc" and v: "vader_analyzer ?svc = Some sample_polarity"
    by (simp_all add: sample_service)
  have vs: "?gv = ?vs"
    by (simp add: sample_vader_scores [OF v])
  have b: "fst (get_bert_embedding ascii_lower ?svc sample_text) = Some (Array1 [0.25, - 0.5])"
    by (simp add: sample_service get_bert_embedding_def squeeze_def)
  have f: "concatenate (Array1 [0.25, - 0.5]) (vader_features ?gv) =
             Inr ([0.25, - 0.5] @ vader_features ?gv)"
    by (rule concatenate_vector)
  have c: "fst (scale_and_classify ?svc ([0.25, - 0.5] @ vader_features ?gv)) = Inr (7, 0.6)"
    by (simp add: sample_service scale_and_classify_def sample_classifier_def)
  have p: "predict (sample_classifier 7) [] = Inr 7"
    by (simp add: sample_classifier_def)
  have o: "(7::int) \<notin> {0, 1, 2, 3}"
    by simp
  note w = unrecognised_severity_is_severe
    [of "str ''Unknown''" ?vs sample_text ?svc ascii_lower "Array1 [0.25, - 0.5]"
        "[0.25, - 0.5] @ vader_features ?gv" 7 "0.6"]
  have a: "get_journal_recommendations (str ''Unknown'') ?vs =
             get_journal_recommendations (str ''Severe'') ?vs"
    using w by simp
  have u: "fst (analyze_journal_text ascii_lower ?svc sample_text)
             (str ''predicted_severity'') = Some (PyStr (str ''Unknown''))"
    and r: "fst (analyze_journal_text ascii_lower ?svc sample_text) (str ''recommendations'') =
             Some (PyStrList (get_journal_recommendations (str ''Severe'') ?gv))"
    using w sample_text_long l b f c o by blast+
  show ?thesis
    using a u r [unfolded vs] l p sev by simp
qed

end
